theory Spec2Isabelle
  imports Main
begin

section \<open>JavaScript values\<close>

text \<open>
  The components are JavaScript classes. A property declared with \<open>type: String\<close> holds
  a string once it is set, \<open>undefined\<close> before that, and \<open>null\<close> where the code assigns
  it (\<open>this._value = null\<close>).
\<close>

datatype jsval = Undefined | Null | Str string

text \<open>The condition of \<open>if (x)\<close>: \<open>undefined\<close>, \<open>null\<close> and the empty string are falsy.\<close>

definition truthy :: "jsval \<Rightarrow> bool" where
  "truthy v = (case v of Undefined \<Rightarrow> False | Null \<Rightarrow> False | Str s \<Rightarrow> s \<noteq> [])"

text \<open>
  What a template literal \<open>`${x}`\<close> and an assignment to a DOM string attribute
  (\<open>input.name = x\<close>) make of a value.
\<close>

definition to_DOMString :: "jsval \<Rightarrow> string" where
  "to_DOMString v = (case v of Undefined \<Rightarrow> ''undefined'' | Null \<Rightarrow> ''null'' | Str s \<Rightarrow> s)"

text \<open>
  An assignment to \<open>input.value\<close>: the DOM stores a string, \<open>null\<close> as the empty string.
\<close>

definition to_input_value :: "jsval \<Rightarrow> string" where
  "to_input_value v = (case v of Null \<Rightarrow> [] | _ \<Rightarrow> to_DOMString v)"

datatype js_error = TypeError

section \<open>The page container: class PbPage of pb-page.js\<close>

record pb_page =
  appRoot :: jsval
  template :: jsval
  endpoint :: jsval

text \<open>\<open>constructor() { super(); this.endpoint = "."; }\<close>\<close>

definition PbPage_constructor :: pb_page where
  "PbPage_constructor = \<lparr>appRoot = Undefined, template = Undefined, endpoint = Str ''.''\<rparr>"

text \<open>
  \<open>static get properties()\<close>: the attribute \<open>app-root\<close> sets \<open>appRoot\<close>, \<open>template\<close> sets
  \<open>template\<close>, \<open>endpoint\<close> sets \<open>endpoint\<close>, each of type String. The properties inherited
  through \<open>...super.properties\<close> are not fields of this record, so any other attribute
  leaves the record as it is.
\<close>

fun PbPage_attribute :: "pb_page \<Rightarrow> string \<times> string \<Rightarrow> pb_page" where
  "PbPage_attribute p (a, v) =
     (if a = ''app-root'' then p\<lparr>appRoot := Str v\<rparr>
      else if a = ''template'' then p\<lparr>template := Str v\<rparr>
      else if a = ''endpoint'' then p\<lparr>endpoint := Str v\<rparr>
      else p)"

text \<open>
  An element \<open><pb-page a1="v1" ...>\<close> of the markup: the constructor runs, then every
  attribute of the markup is passed on to its property.
\<close>

definition PbPage_element :: "(string \<times> string) list \<Rightarrow> pb_page" where
  "PbPage_element attrs = foldl PbPage_attribute PbPage_constructor attrs"

subsection \<open>Insertion into the page\<close>

text \<open>
  What happens on the page, in order: a custom event dispatched (its name and the
  fields of its detail), or a descendant component that has completed its
  initialisation.
\<close>

datatype page_event =
  Dispatched string "(string \<times> jsval) list"
| Initialised string

text \<open>
  Modelled from the spec: \<open>signalReady\<close> is a method of \<open>pbMixin\<close> (pb-mixin.js), which is
  not among the sources. The spec has the page container "emit a page ready signal
  carrying the endpoint" and lists \<open>pb-page-ready (detail: endpoint)\<close> among the custom
  events: the call dispatches the named event with the data as its detail.
\<close>

definition signalReady :: "string \<Rightarrow> (string \<times> jsval) list \<Rightarrow> page_event list \<Rightarrow> page_event list" where
  "signalReady name data evs = evs @ [Dispatched name data]"

text \<open>
  \<open>connectedCallback() { super.connectedCallback();
     this.signalReady('pb-page-ready', { endpoint: this.endpoint }); }\<close>
  The inherited \<open>connectedCallback\<close> is the framework's; it dispatches nothing that is
  recorded here.
\<close>

definition PbPage_connectedCallback :: "pb_page \<Rightarrow> page_event list \<Rightarrow> page_event list" where
  "PbPage_connectedCallback p evs = signalReady ''pb-page-ready'' [(''endpoint'', endpoint p)] evs"

text \<open>
  Modelled from the spec: the initialisation of a descendant component is code of
  \<open>pbMixin\<close> (pb-mixin.js), which is not among the sources. The spec: "descendants can
  complete their own initialization only after configuration is available". A
  descendant that is connected completes its initialisation when the page ready signal
  has been given, and waits otherwise.
\<close>

definition page_ready :: "page_event list \<Rightarrow> bool" where
  "page_ready evs =
     list_ex (\<lambda>e. case e of Dispatched name data \<Rightarrow> name = ''pb-page-ready'' | Initialised d \<Rightarrow> False) evs"

definition descendant_connected :: "page_event list \<Rightarrow> string \<Rightarrow> page_event list" where
  "descendant_connected evs d = (if page_ready evs then evs @ [Initialised d] else evs)"

text \<open>
  The browser connects the elements of an inserted subtree in tree order: the page
  container first, then its descendants.
\<close>

definition insert_page :: "pb_page \<Rightarrow> string list \<Rightarrow> page_event list \<Rightarrow> page_event list" where
  "insert_page p descendants evs = foldl descendant_connected (PbPage_connectedCallback p evs) descendants"

section \<open>The select widget: class PbSelect of pb-page.js\<close>

text \<open>The hidden form input that \<open>connectedCallback\<close> creates.\<close>

record hidden_input =
  h_type :: string
  h_name :: string
  h_value :: string
  h_slot :: string

text \<open>An entry of \<open>this._items\<close>: \<open>{label: item.text, value: item.value}\<close>.\<close>

record loaded_item =
  item_label :: jsval
  item_value :: jsval

datatype console_entry =
  Log_loading string
| Log_loaded nat
| Error_failed string

text \<open>
  The state of a \<open>pb-select\<close>. \<open>prop_label\<close>, \<open>prop_name\<close> and \<open>prop_source\<close> are the
  properties \<open>label\<close>, \<open>name\<close> and \<open>source\<close>; \<open>priv_value\<close>, \<open>priv_items\<close> and \<open>priv_hidden\<close>
  are \<open>this._value\<close>, \<open>this._items\<close> and \<open>this._hidden\<close>. \<open>outputs\<close> holds the hidden
  inputs that earlier runs of \<open>connectedCallback\<close> appended and that \<open>this._hidden\<close> no
  longer refers to. \<open>rendered\<close> says whether the template of \<open>render\<close> is in the shadow
  root, so that its slots and its list box are found. \<open>slotted\<close> are the nodes assigned
  to the unnamed slot (the static options), \<open>subform\<close> the nodes assigned to the slot
  \<open>subform\<close>, each given by the name and value of its descendants that carry a name.
  \<open>list_selected\<close> is \<open>selected\<close> of the list box. \<open>console\<close>, \<open>dispatched\<close> and
  \<open>update_requests\<close> record the calls of \<open>console.log\<close> and \<open>console.error\<close>, of
  \<open>this.dispatchEvent\<close> and of \<open>this.requestUpdate\<close>.
\<close>

record pb_select =
  prop_label :: jsval
  prop_name :: jsval
  prop_source :: jsval
  priv_value :: jsval
  priv_items :: "loaded_item list"
  priv_hidden :: "hidden_input option"
  outputs :: "hidden_input list"
  rendered :: bool
  slotted :: "string list"
  subform :: "(string \<times> string) list list"
  list_selected :: jsval
  console :: "console_entry list"
  dispatched :: "string list"
  update_requests :: "(string \<times> jsval) list"

text \<open>\<open>constructor() { super(); this._value = null; this._items = []; }\<close>\<close>

definition PbSelect_constructor :: pb_select where
  "PbSelect_constructor =
     \<lparr>prop_label = Undefined, prop_name = Undefined, prop_source = Undefined,
      priv_value = Null, priv_items = [], priv_hidden = None, outputs = [],
      rendered = False, slotted = [], subform = [], list_selected = Undefined,
      console = [], dispatched = [], update_requests = []\<rparr>"

text \<open>
  \<open>set value(newVal) { const oldVal = this._value; this._value = newVal;
     if (this._hidden) { this._hidden.value = this._value; }
     this.requestUpdate('value', oldVal); }\<close>
\<close>

definition set_value :: "jsval \<Rightarrow> pb_select \<Rightarrow> pb_select" where
  "set_value newVal s =
     (let oldVal = priv_value s;
          s1 = s\<lparr>priv_value := newVal\<rparr>;
          s2 = (case priv_hidden s1 of
                  None \<Rightarrow> s1
                | Some h \<Rightarrow> s1\<lparr>priv_hidden := Some (h\<lparr>h_value := to_input_value (priv_value s1)\<rparr>)\<rparr>)
      in s2\<lparr>update_requests := update_requests s2 @ [(''value'', oldVal)]\<rparr>)"

text \<open>\<open>get value() { return this._value; }\<close>\<close>

definition get_value :: "pb_select \<Rightarrow> jsval" where
  "get_value s = priv_value s"

text \<open>
  \<open>connectedCallback\<close>: a new hidden input named after the component, holding its
  value, in the slot \<open>output\<close>, appended to the component's children. The inherited
  \<open>connectedCallback\<close> is the framework's and changes none of the fields of the record.
\<close>

definition PbSelect_connectedCallback :: "pb_select \<Rightarrow> pb_select" where
  "PbSelect_connectedCallback s =
     s\<lparr>priv_hidden := Some \<lparr>h_type = ''hidden'', h_name = to_DOMString (prop_name s),
                              h_value = to_input_value (get_value s), h_slot = ''output''\<rparr>,
       outputs := outputs s @ (case priv_hidden s of None \<Rightarrow> [] | Some h \<Rightarrow> [h])\<rparr>"

text \<open>
  The first run of \<open>render\<close>: the template is in the shadow root, and the binding
  \<open>.selected="${this.value}"\<close> has set \<open>selected\<close> of the list box.
\<close>

definition render :: "pb_select \<Rightarrow> pb_select" where
  "render s = s\<lparr>rendered := True, list_selected := get_value s\<rparr>"

text \<open>
  \<open>_clear()\<close>: every node assigned to the unnamed slot is removed from its parent.
  Before the first rendering the slot is not found and nothing is removed.
\<close>

definition clear :: "pb_select \<Rightarrow> pb_select" where
  "clear s = (if rendered s then s\<lparr>slotted := []\<rparr> else s)"

text \<open>
  The browser as far as \<open>_loadRemote\<close> uses it: \<open>window.location.href\<close>, the constructor
  \<open>new URL(url, base)\<close> followed by \<open>toString()\<close> (\<open>None\<close> where it throws a TypeError),
  and \<open>encodeURIComponent\<close>.
\<close>

record browser =
  href :: string
  new_URL :: "string \<Rightarrow> string \<Rightarrow> string option"
  encodeURIComponent :: "string \<Rightarrow> string"

text \<open>\<open>Array.prototype.join\<close>.\<close>

fun join :: "string \<Rightarrow> string list \<Rightarrow> string" where
  "join sep [] = []"
| "join sep [x] = x"
| "join sep (x # y # ys) = x @ sep @ join sep (y # ys)"

text \<open>
  \<open>_getParameters()\<close>: \<open>name=encodeURIComponent(value)\<close> for every named input of every
  node assigned to the slot \<open>subform\<close>, joined by \<open>&\<close>.
\<close>

definition getParameters :: "browser \<Rightarrow> pb_select \<Rightarrow> string" where
  "getParameters b s =
     (let params =
        (if rendered s then
           foldl (\<lambda>params node.
                    foldl (\<lambda>ps (n, v). ps @ [n @ ''='' @ encodeURIComponent b v]) params node)
                 [] (subform s)
         else [])
      in join ''&'' params)"

text \<open>
  \<open>if (url.indexOf('?') > -1) { url = `${url}&${params}`; } else { url = `${url}?${params}`; }\<close>
\<close>

definition add_parameters :: "string \<Rightarrow> string \<Rightarrow> string" where
  "add_parameters url params =
     (if CHR ''?'' \<in> set url then url @ ''&'' @ params else url @ ''?'' @ params)"

text \<open>
  \<open>_loadRemote()\<close> up to the call of \<open>fetch\<close>. The argument \<open>ep\<close> is what
  \<open>this.getEndpoint()\<close> returns at this call (\<open>getEndpoint\<close> is a method of \<open>pbMixin\<close>).
  The result is the new state and the URL of the GET request that was started, if one
  was; the request settles later, see \<open>fetch_settled\<close>.
\<close>

definition loadRemote :: "browser \<Rightarrow> jsval \<Rightarrow> pb_select \<Rightarrow> js_error + pb_select \<times> string option" where
  "loadRemote b ep s =
     (if truthy (prop_source s) then
        (let base = (if ep = Str ''.'' then href b else to_DOMString ep @ ''/'') in
         case new_URL b (to_DOMString (prop_source s)) base of
           None \<Rightarrow> Inl TypeError
         | Some u \<Rightarrow>
             (let url = add_parameters u (getParameters b s)
              in Inr (s\<lparr>console := console s @ [Log_loading url]\<rparr>, Some url)))
      else Inr (s, None))"

text \<open>
  How the request settles. \<open>Rejected\<close>: the promise of \<open>fetch\<close> rejects (a network or
  transport failure). \<open>Body_not_JSON\<close>: \<open>response.json()\<close> rejects. \<open>JSON_array\<close>: the
  body is a JSON array; an element is given by its \<open>text\<close> and \<open>value\<close>, or is \<open>null\<close>
  (\<open>Nullish\<close>), where reading \<open>item.text\<close> throws. \<open>JSON_other\<close>: any other JSON value,
  on which \<open>json.forEach\<close> throws.
\<close>

datatype json_elem = Elem jsval jsval | Nullish

datatype fetch_outcome =
  Rejected
| Body_not_JSON
| JSON_array "json_elem list"
| JSON_other

text \<open>
  \<open>json.forEach((item) => { items.push({label: item.text, value: item.value}); })\<close>;
  \<open>None\<close> where it throws.
\<close>

fun push_items :: "json_elem list \<Rightarrow> loaded_item list \<Rightarrow> loaded_item list option" where
  "push_items [] items = Some items"
| "push_items (Elem t v # js) items = push_items js (items @ [\<lparr>item_label = t, item_value = v\<rparr>])"
| "push_items (Nullish # js) items = None"

text \<open>
  The callbacks of the promise chain: \<open>.then((response) => response.json())\<close>,
  \<open>.then((json) => { this._clear(); ...; this._items = items; })\<close> and
  \<open>.catch(() => { console.error(...); })\<close>. An exception thrown in the second callback
  is caught by the \<open>catch\<close> after \<open>_clear\<close> has run.
\<close>

definition fetch_settled :: "string \<Rightarrow> fetch_outcome \<Rightarrow> pb_select \<Rightarrow> pb_select" where
  "fetch_settled url outcome s =
     (case outcome of
        Rejected \<Rightarrow> s\<lparr>console := console s @ [Error_failed url]\<rparr>
      | Body_not_JSON \<Rightarrow> s\<lparr>console := console s @ [Error_failed url]\<rparr>
      | JSON_array js \<Rightarrow>
          (let s1 = clear s in
           case push_items js [] of
             None \<Rightarrow> s1\<lparr>console := console s1 @ [Error_failed url]\<rparr>
           | Some items \<Rightarrow>
               s1\<lparr>console := console s1 @ [Log_loaded (length items)], priv_items := items\<rparr>)
      | JSON_other \<Rightarrow>
          (let s1 = clear s in s1\<lparr>console := console s1 @ [Error_failed url]\<rparr>))"

text \<open>
  \<open>_changed(ev) { ev.preventDefault();
     const list = this.shadowRoot.getElementById('list');
     if (this._hidden.value === list.selected) { return; }
     this._hidden.value = list.selected;
     this.dispatchEvent(new CustomEvent('change')); }\<close>
  Reading \<open>this._hidden.value\<close> before the component is connected, or \<open>list.selected\<close>
  before it is rendered, throws a TypeError. \<open>ev.preventDefault()\<close> acts on the event
  only.
\<close>

definition changed :: "pb_select \<Rightarrow> js_error + pb_select" where
  "changed s =
     (case priv_hidden s of
        None \<Rightarrow> Inl TypeError
      | Some h \<Rightarrow>
          if \<not> rendered s then Inl TypeError
          else if Str (h_value h) = list_selected s then Inr s
          else Inr (s\<lparr>priv_hidden := Some (h\<lparr>h_value := to_input_value (list_selected s)\<rparr>),
                      dispatched := dispatched s @ [''change'']\<rparr>))"

text \<open>
  The user selects the item whose value is \<open>v\<close>: the list box sets its \<open>selected\<close> and
  fires \<open>iron-select\<close>, which the template binds to \<open>_changed\<close>.
\<close>

definition select_item :: "jsval \<Rightarrow> pb_select \<Rightarrow> js_error + pb_select" where
  "select_item v s = changed (s\<lparr>list_selected := v\<rparr>)"

text \<open>
  The hidden inputs among the children of the component, in document order: those that
  earlier runs of \<open>connectedCallback\<close> appended, then the one \<open>this._hidden\<close> refers to.
\<close>

definition form_inputs :: "pb_select \<Rightarrow> hidden_input list" where
  "form_inputs s = outputs s @ (case priv_hidden s of None \<Rightarrow> [] | Some h \<Rightarrow> [h])"

text \<open>
  What a form around the component submits for it: the name and the value of each of
  its hidden inputs, an input whose name is empty left out.
\<close>

definition submitted :: "pb_select \<Rightarrow> (string \<times> string) list" where
  "submitted s = map (\<lambda>h. (h_name h, h_value h)) (filter (\<lambda>h. h_name h \<noteq> []) (form_inputs s))"

text \<open>Every value the form submits for the component is the value of the component.\<close>

definition in_sync :: "pb_select \<Rightarrow> bool" where
  "in_sync s = list_all (\<lambda>(n, x). Str x = get_value s) (submitted s)"

section \<open>Components whose code is not among the sources\<close>

subsection \<open>Endpoint lookup\<close>

text \<open>
  Modelled from the spec: \<open>getEndpoint\<close> is a method of \<open>pbMixin\<close> (pb-mixin.js), which is
  not among the sources. The spec: the endpoint is "established once by the page
  container and inherited by descendants via lookup, not by copying -- descendants
  resolve it at request time". The call reads the endpoint the page container has at
  the time of the call.
\<close>

definition getEndpoint :: "pb_page \<Rightarrow> jsval" where
  "getEndpoint page = endpoint page"

subsection \<open>The document descriptor\<close>

text \<open>
  Modelled from the spec: the descriptor holder is pb-document.js, which is not among
  the sources. The spec: a document descriptor is "{ id, path, stylesheet/ODD name,
  view mode, XPath selector, optional position }", "updated in place when a refresh
  event supplies a partial descriptor (merge semantics -- only supplied fields
  overwrite)". The detail of a refresh event is a JavaScript object: its fields in
  the order they were written, as in
  \<open>{ path: 'test/graves6.xml', odd: 'graves', position: null }\<close>.
\<close>

datatype field = Id | Path | Odd | View | XPath | Position

type_synonym descriptor = "field \<rightharpoonup> jsval"

definition merge_detail :: "descriptor \<Rightarrow> (field \<times> jsval) list \<Rightarrow> descriptor" where
  "merge_detail d detail = foldl (\<lambda>m (k, v). m(k \<mapsto> v)) d detail"

subsection \<open>The viewer\<close>

text \<open>
  Modelled from the spec: the viewer is pb-view.js, which is not among the sources. The
  spec: "State machine: {idle} -> (refresh event received) -> {loading} -> (fetch
  settles) -> {idle, content updated} or {idle, placeholder shown}. Terminal event
  emitted on every idle re-entry"; "On success, replaces its rendered content with the
  returned markup and emits a terminal update finished event. On failure (e.g.,
  resource not found), renders a configurable placeholder message instead of failing
  silently or throwing." \<open>notFound\<close> is the attribute \<open>not-found\<close>, \<open>content\<close> the content
  region of the viewer.
\<close>

datatype view_state = Idle | Loading

datatype fetch_result = Markup string | Failed

datatype view_event = Pb_end_update

record pb_view =
  state :: view_state
  notFound :: string
  content :: string

definition refresh_received :: "pb_view \<Rightarrow> pb_view" where
  "refresh_received v = v\<lparr>state := Loading\<rparr>"

definition fetch_settles :: "fetch_result \<Rightarrow> pb_view \<Rightarrow> pb_view \<times> view_event list" where
  "fetch_settles r v =
     (case r of
        Markup m \<Rightarrow> (v\<lparr>state := Idle, content := m\<rparr>, [Pb_end_update])
      | Failed \<Rightarrow> (v\<lparr>state := Idle, content := notFound v\<rparr>, [Pb_end_update]))"

text \<open>
  A fetch cycle of a viewer bound to the descriptor \<open>d\<close>: the viewer starts loading,
  and the fetch settles with what the remote side (\<open>remote\<close>) answers for the
  descriptor.
\<close>

definition fetch_cycle ::
  "(descriptor \<Rightarrow> fetch_result) \<Rightarrow> descriptor \<Rightarrow> pb_view \<Rightarrow> pb_view \<times> view_event list" where
  "fetch_cycle remote d v = fetch_settles (remote d) (refresh_received v)"

section \<open>The page ready signal\<close>

lemma foldl_descendant_connected:
  "page_ready evs \<Longrightarrow> foldl descendant_connected evs ds = evs @ map Initialised ds"
proof (induction ds arbitrary: evs)
  case Nil
  then show ?case by simp
next
  case (Cons d ds)
  have "page_ready (evs @ [Initialised d])"
    using Cons.prems by (simp add: page_ready_def)
  then show ?case
    using Cons by (simp add: descendant_connected_def)
qed

text \<open>
  C4. When a page container is inserted, \<open>connectedCallback\<close> dispatches \<open>pb-page-ready\<close>
  with the container's endpoint in the detail, and it does so before any descendant
  completes its initialisation: after everything that had happened on the page before,
  the signal comes first, and the descendants' initialisations follow it.
\<close>

theorem page_ready_signal_on_insertion:
  "insert_page p ds evs =
     evs @ Dispatched ''pb-page-ready'' [(''endpoint'', endpoint p)] # map Initialised ds"
proof -
  let ?evs1 = "PbPage_connectedCallback p evs"
  have ready: "page_ready ?evs1"
    by (simp add: PbPage_connectedCallback_def signalReady_def page_ready_def)
  show ?thesis
    unfolding insert_page_def foldl_descendant_connected [OF ready]
    by (simp add: PbPage_connectedCallback_def signalReady_def)
qed

section \<open>The default endpoint\<close>

lemma PbPage_attribute_endpoint:
  "a \<noteq> ''endpoint'' \<Longrightarrow> endpoint (PbPage_attribute p (a, v)) = endpoint p"
  by simp

lemma foldl_attribute_endpoint:
  "''endpoint'' \<notin> fst ` set attrs \<Longrightarrow> endpoint (foldl PbPage_attribute p attrs) = endpoint p"
proof (induction attrs arbitrary: p)
  case Nil
  then show ?case by simp
next
  case (Cons av attrs)
  obtain a v where av: "av = (a, v)" by (cases av)
  from Cons.prems av have a: "a \<noteq> ''endpoint''" by auto
  from Cons.prems have rest: "''endpoint'' \<notin> fst ` set attrs" by auto
  have "endpoint (PbPage_attribute p av) = endpoint p"
    unfolding av using a by (rule PbPage_attribute_endpoint)
  with Cons.IH [OF rest] show ?case by simp
qed

text \<open>
  C5. A page container whose markup has no \<open>endpoint\<close> attribute keeps the endpoint
  \<open>"."\<close> that its constructor set, and a \<open>pb-select\<close> with a source that is given this
  endpoint resolves the source against \<open>window.location.href\<close>: the request goes to
  \<open>new URL(source, window.location.href)\<close>, followed by the parameters.
\<close>

theorem default_endpoint_is_current_context:
  assumes "''endpoint'' \<notin> fst ` set attrs"
    and "prop_source s = Str src" and "src \<noteq> []"
    and "new_URL b src (href b) = Some u"
  shows "endpoint (PbPage_element attrs) = Str ''.'' \<and>
         loadRemote b (endpoint (PbPage_element attrs)) s =
           Inr (s\<lparr>console := console s @ [Log_loading (add_parameters u (getParameters b s))]\<rparr>,
                Some (add_parameters u (getParameters b s)))"
proof -
  have ep: "endpoint (PbPage_element attrs) = Str ''.''"
    using foldl_attribute_endpoint [OF assms(1)]
    by (simp add: PbPage_element_def PbPage_constructor_def)
  show ?thesis
    using assms(2-4) by (simp add: ep loadRemote_def truthy_def to_DOMString_def Let_def)
qed

theorem default_endpoint_witness:
  "endpoint (PbPage_element [(''app-root'', ''/app'')]) = Str ''.'' \<and>
   loadRemote \<lparr>href = ''http://localhost/app/index.html'', new_URL = (\<lambda>u base. Some (base @ u)),
                encodeURIComponent = (\<lambda>x. x)\<rparr>
      (endpoint (PbPage_element [(''app-root'', ''/app'')]))
      (PbSelect_constructor\<lparr>prop_source := Str ''items.json''\<rparr>) =
     Inr (PbSelect_constructor\<lparr>prop_source := Str ''items.json'',
            console := [Log_loading ''http://localhost/app/index.htmlitems.json?'']\<rparr>,
          Some ''http://localhost/app/index.htmlitems.json?'')"
proof -
  let ?b = "\<lparr>href = ''http://localhost/app/index.html'', new_URL = (\<lambda>u base. Some (base @ u)),
             encodeURIComponent = (\<lambda>x. x)\<rparr>"
  let ?s = "PbSelect_constructor\<lparr>prop_source := Str ''items.json''\<rparr>"
  have a1: "''endpoint'' \<notin> fst ` set [(''app-root'', ''/app'')]" by simp
  have a2: "prop_source ?s = Str ''items.json''" by simp
  have a3: "''items.json'' \<noteq> []" by simp
  have a4: "new_URL ?b ''items.json'' (href ?b) = Some ''http://localhost/app/index.htmlitems.json''"
    by simp
  have params: "getParameters ?b ?s = []"
    by (simp add: getParameters_def PbSelect_constructor_def)
  have url: "add_parameters ''http://localhost/app/index.htmlitems.json'' [] =
               ''http://localhost/app/index.htmlitems.json?''"
    by (simp add: add_parameters_def)
  note t = default_endpoint_is_current_context [OF a1 a2 a3 a4, unfolded params url]
  have e: "endpoint (PbPage_element [(''app-root'', ''/app'')]) = Str ''.''"
    using t by (rule conjunct1)
  have l: "loadRemote ?b (endpoint (PbPage_element [(''app-root'', ''/app'')])) ?s =
     Inr (?s\<lparr>console := console ?s @ [Log_loading ''http://localhost/app/index.htmlitems.json?'']\<rparr>,
          Some ''http://localhost/app/index.htmlitems.json?'')"
    using t by (rule conjunct2)
  have c: "console ?s = []" by (simp add: PbSelect_constructor_def)
  show ?thesis
    using e l unfolding c by simp
qed

section \<open>A failed request of the select widget\<close>

text \<open>
  C6. When the request of \<open>_loadRemote\<close> fails on the network (the promise of \<open>fetch\<close>
  rejects), the one effect is the diagnostic \<open>console.error\<close> writes: the loaded items,
  the static options, the value and the hidden input stay as they were, and the
  handler hands no error on.
\<close>

theorem network_failure_only_logged:
  "fetch_settled url Rejected s = s\<lparr>console := console s @ [Error_failed url]\<rparr>"
  by (simp add: fetch_settled_def)

section \<open>The value of the select widget and its hidden input\<close>

lemma stored_as_assigned_iff_string: "Str (to_input_value v) = v \<longleftrightarrow> (\<exists>x. v = Str x)"
  by (cases v) (simp_all add: to_input_value_def to_DOMString_def)

text \<open>
  C9, as amended. Once a \<open>pb-select\<close> is connected, every assignment to its \<open>value\<close>
  property stores the assigned value in the component and assigns it to the hidden
  input \<open>this._hidden\<close>, which holds it as the DOM does (a string as it is, \<open>null\<close> as
  the empty string, \<open>undefined\<close> as the text \<open>undefined\<close>); no other hidden input of the
  component is touched. So right after the assignment, what the form submits for the
  component is the component's value exactly when the assigned value is a string (or
  the hidden input has no name and is not submitted) and every named hidden input that
  an earlier run of \<open>connectedCallback\<close> left among the children already holds that
  value.
\<close>

theorem set_value_syncs_hidden:
  assumes "priv_hidden s = Some h"
  shows "get_value (set_value v s) = v \<and>
         form_inputs (set_value v s) = outputs s @ [h\<lparr>h_value := to_input_value v\<rparr>] \<and>
         (in_sync (set_value v s) \<longleftrightarrow>
            (\<forall>i \<in> set (outputs s). h_name i \<noteq> [] \<longrightarrow> Str (h_value i) = v) \<and>
            (h_name h \<noteq> [] \<longrightarrow> (\<exists>x. v = Str x)))"
proof -
  let ?s' = "set_value v s"
  have val: "get_value ?s' = v"
    by (simp add: set_value_def get_value_def Let_def split: option.split)
  have hid: "priv_hidden ?s' = Some (h\<lparr>h_value := to_input_value v\<rparr>)"
    using assms by (simp add: set_value_def Let_def)
  have out: "outputs ?s' = outputs s"
    by (simp add: set_value_def Let_def split: option.split)
  have inputs: "form_inputs ?s' = outputs s @ [h\<lparr>h_value := to_input_value v\<rparr>]"
    by (simp add: form_inputs_def hid out)
  have sync: "in_sync ?s' \<longleftrightarrow>
      (\<forall>i \<in> set (outputs s). h_name i \<noteq> [] \<longrightarrow> Str (h_value i) = v) \<and>
      (h_name h \<noteq> [] \<longrightarrow> Str (to_input_value v) = v)"
    unfolding in_sync_def submitted_def inputs val
    by (auto simp: list_all_iff)
  show ?thesis
    using val inputs sync by (simp add: stored_as_assigned_iff_string)
qed

theorem set_value_syncs_hidden_witness:
  "get_value (set_value (Str ''b'') (PbSelect_connectedCallback PbSelect_constructor)) = Str ''b'' \<and>
   submitted (set_value (Str ''b'') (PbSelect_connectedCallback PbSelect_constructor)) =
     [(''undefined'', ''b'')] \<and>
   in_sync (set_value (Str ''b'') (PbSelect_connectedCallback PbSelect_constructor)) \<and>
   submitted (set_value Null (PbSelect_connectedCallback PbSelect_constructor)) =
     [(''undefined'', [])] \<and>
   \<not> in_sync (set_value Null (PbSelect_connectedCallback PbSelect_constructor))"
proof -
  let ?s = "PbSelect_connectedCallback PbSelect_constructor"
  let ?h = "\<lparr>h_type = ''hidden'', h_name = ''undefined'', h_value = [], h_slot = ''output''\<rparr>"
  have h: "priv_hidden ?s = Some ?h"
    by (simp add: PbSelect_connectedCallback_def PbSelect_constructor_def get_value_def
        to_DOMString_def to_input_value_def)
  have out: "outputs ?s = []"
    by (simp add: PbSelect_connectedCallback_def PbSelect_constructor_def)
  note b = set_value_syncs_hidden [OF h, of "Str ''b''", unfolded out]
  note n = set_value_syncs_hidden [OF h, of Null, unfolded out]
  have sub_b: "submitted (set_value (Str ''b'') ?s) = [(''undefined'', ''b'')]"
    using b by (simp add: submitted_def to_input_value_def to_DOMString_def)
  have sub_n: "submitted (set_value Null ?s) = [(''undefined'', [])]"
    using n by (simp add: submitted_def to_input_value_def)
  show ?thesis
    using b n sub_b sub_n by simp
qed

text \<open>
  C9 as stated fails: that the form submits the component's value is not an invariant
  of a connected component. Three runs, each from a component that is given the value
  \<open>a\<close> and then connected (its \<open>name\<close> is not set, so the hidden input is named
  \<open>undefined\<close>):
  \<^item> it is rendered and the user selects the item \<open>b\<close>: \<open>_changed\<close> stores \<open>b\<close> in the
    hidden input and leaves \<open>this._value\<close> alone, so the form submits \<open>b\<close> while the
    \<open>value\<close> property still is \<open>a\<close>;
  \<^item> \<open>null\<close> is assigned to \<open>value\<close>: the hidden input holds the empty string, the
    component \<open>null\<close>;
  \<^item> it is connected a second time and \<open>b\<close> is assigned to \<open>value\<close>: the hidden input of
    the first connection is still among the children and still holds \<open>a\<close>.
\<close>

theorem selection_leaves_value_stale:
  "in_sync (render (PbSelect_connectedCallback (set_value (Str ''a'') PbSelect_constructor))) \<and>
   (case select_item (Str ''b'')
           (render (PbSelect_connectedCallback (set_value (Str ''a'') PbSelect_constructor))) of
      Inl e \<Rightarrow> False
    | Inr s' \<Rightarrow> submitted s' = [(''undefined'', ''b'')] \<and> get_value s' = Str ''a'' \<and>
                \<not> in_sync s') \<and>
   submitted (set_value Null (PbSelect_connectedCallback (set_value (Str ''a'') PbSelect_constructor))) =
     [(''undefined'', [])] \<and>
   get_value (set_value Null (PbSelect_connectedCallback (set_value (Str ''a'') PbSelect_constructor))) =
     Null \<and>
   \<not> in_sync (set_value Null (PbSelect_connectedCallback (set_value (Str ''a'') PbSelect_constructor))) \<and>
   submitted (set_value (Str ''b'') (PbSelect_connectedCallback (PbSelect_connectedCallback
                (set_value (Str ''a'') PbSelect_constructor)))) =
     [(''undefined'', ''a''), (''undefined'', ''b'')] \<and>
   get_value (set_value (Str ''b'') (PbSelect_connectedCallback (PbSelect_connectedCallback
                (set_value (Str ''a'') PbSelect_constructor)))) = Str ''b'' \<and>
   \<not> in_sync (set_value (Str ''b'') (PbSelect_connectedCallback (PbSelect_connectedCallback
                (set_value (Str ''a'') PbSelect_constructor))))"
  by (simp add: in_sync_def submitted_def form_inputs_def render_def PbSelect_connectedCallback_def
      set_value_def PbSelect_constructor_def select_item_def changed_def get_value_def
      to_input_value_def to_DOMString_def Let_def)

section \<open>The change event of the select widget\<close>

text \<open>
  C10. On a connected and rendered \<open>pb-select\<close>, \<open>_changed\<close> dispatches a \<open>change\<close> event
  exactly when the selected value of the list box differs from the value of the hidden
  input, and then stores the selected value in the hidden input; when the two are the
  same it returns with the state as it was and dispatches nothing.
\<close>

theorem changed_iff_differs:
  assumes "priv_hidden s = Some h" and "rendered s"
  shows "(Str (h_value h) = list_selected s \<longrightarrow> changed s = Inr s) \<and>
         (Str (h_value h) \<noteq> list_selected s \<longrightarrow>
            changed s = Inr (s\<lparr>priv_hidden := Some (h\<lparr>h_value := to_input_value (list_selected s)\<rparr>),
                               dispatched := dispatched s @ [''change'']\<rparr>))"
  using assms by (simp add: changed_def)

theorem changed_iff_differs_witness:
  "changed (render (PbSelect_connectedCallback (set_value (Str ''a'') PbSelect_constructor))) =
     Inr (render (PbSelect_connectedCallback (set_value (Str ''a'') PbSelect_constructor))) \<and>
   (case changed ((render (PbSelect_connectedCallback (set_value (Str ''a'') PbSelect_constructor)))
                    \<lparr>list_selected := Str ''b''\<rparr>) of
      Inl e \<Rightarrow> False
    | Inr s' \<Rightarrow> dispatched s' = [''change''] \<and> map_option h_value (priv_hidden s') = Some ''b'')"
proof -
  let ?s = "render (PbSelect_connectedCallback (set_value (Str ''a'') PbSelect_constructor))"
  let ?h = "\<lparr>h_type = ''hidden'', h_name = ''undefined'', h_value = ''a'', h_slot = ''output''\<rparr>"
  have h: "priv_hidden ?s = Some ?h"
    by (simp add: render_def PbSelect_connectedCallback_def set_value_def PbSelect_constructor_def
        get_value_def to_DOMString_def to_input_value_def Let_def)
  have r: "rendered ?s" by (simp add: render_def)
  have sel: "list_selected ?s = Str ''a''"
    by (simp add: render_def PbSelect_connectedCallback_def set_value_def PbSelect_constructor_def
        get_value_def Let_def)
  have d: "dispatched ?s = []"
    by (simp add: render_def PbSelect_connectedCallback_def set_value_def PbSelect_constructor_def
        Let_def)
  have same: "changed ?s = Inr ?s"
    using changed_iff_differs [OF h r] sel by simp
  have h': "priv_hidden (?s\<lparr>list_selected := Str ''b''\<rparr>) = Some ?h" using h by simp
  have r': "rendered (?s\<lparr>list_selected := Str ''b''\<rparr>)" using r by simp
  have other: "changed (?s\<lparr>list_selected := Str ''b''\<rparr>) =
      Inr (?s\<lparr>list_selected := Str ''b'', priv_hidden := Some (?h\<lparr>h_value := ''b''\<rparr>),
              dispatched := dispatched ?s @ [''change'']\<rparr>)"
    using changed_iff_differs [OF h' r'] by (simp add: to_input_value_def to_DOMString_def)
  show ?thesis
    unfolding other using same d by simp
qed

section \<open>The endpoint is looked up at request time\<close>

text \<open>
  C7. A \<open>pb-select\<close> keeps no endpoint of its own: \<open>_loadRemote\<close> asks \<open>getEndpoint()\<close>
  each time it builds a URL. After the endpoint of the page container has been changed
  to \<open>e\<close>, whatever it was before and whatever the component has requested before, the
  next request resolves the source against \<open>e/\<close> (against \<open>window.location.href\<close> when
  \<open>e\<close> is \<open>"."\<close>).
\<close>

theorem endpoint_change_reaches_next_request:
  assumes "prop_source s = Str src" and "src \<noteq> []"
    and "new_URL b src (if e = ''.'' then href b else e @ ''/'') = Some u"
  shows "loadRemote b (getEndpoint (PbPage_attribute page (''endpoint'', e))) s =
           Inr (s\<lparr>console := console s @ [Log_loading (add_parameters u (getParameters b s))]\<rparr>,
                Some (add_parameters u (getParameters b s)))"
proof (cases "e = ''.''")
  case True
  with assms show ?thesis
    by (simp add: loadRemote_def getEndpoint_def truthy_def to_DOMString_def Let_def)
next
  case False
  with assms show ?thesis
    by (simp add: loadRemote_def getEndpoint_def truthy_def to_DOMString_def Let_def)
qed

theorem endpoint_change_witness:
  "loadRemote \<lparr>href = ''http://localhost/app/index.html'', new_URL = (\<lambda>u base. Some (base @ u)),
                encodeURIComponent = (\<lambda>x. x)\<rparr>
      (getEndpoint (PbPage_attribute
                      (PbPage_element [(''endpoint'', ''http://localhost:8080/exist/apps/tei-publisher'')])
                      (''endpoint'', ''http://example.org/api'')))
      (PbSelect_constructor\<lparr>prop_source := Str ''items.json''\<rparr>) =
     Inr (PbSelect_constructor\<lparr>prop_source := Str ''items.json'',
            console := [Log_loading ''http://example.org/api/items.json?'']\<rparr>,
          Some ''http://example.org/api/items.json?'')"
proof -
  let ?b = "\<lparr>href = ''http://localhost/app/index.html'', new_URL = (\<lambda>u base. Some (base @ u)),
             encodeURIComponent = (\<lambda>x. x)\<rparr>"
  let ?s = "PbSelect_constructor\<lparr>prop_source := Str ''items.json''\<rparr>"
  have a1: "prop_source ?s = Str ''items.json''" by simp
  have a2: "''items.json'' \<noteq> []" by simp
  have a3: "new_URL ?b ''items.json''
              (if ''http://example.org/api'' = ''.'' then href ?b else ''http://example.org/api'' @ ''/'') =
              Some ''http://example.org/api/items.json''"
    by simp
  have params: "getParameters ?b ?s = []"
    by (simp add: getParameters_def PbSelect_constructor_def)
  have url: "add_parameters ''http://example.org/api/items.json'' [] =
               ''http://example.org/api/items.json?''"
    by (simp add: add_parameters_def)
  have c: "console ?s = []" by (simp add: PbSelect_constructor_def)
  show ?thesis
    using endpoint_change_reaches_next_request [OF a1 a2 a3, unfolded params url c]
    by simp
qed

section \<open>Merging a refresh event into the descriptor\<close>

lemma merge_detail_other:
  "k \<notin> fst ` set detail \<Longrightarrow> merge_detail d detail k = d k"
  unfolding merge_detail_def
  by (induction detail arbitrary: d) auto

lemma merge_detail_supplied:
  "distinct (map fst detail) \<Longrightarrow> (k, v) \<in> set detail \<Longrightarrow> merge_detail d detail k = Some v"
proof (induction detail arbitrary: d)
  case Nil
  then show ?case by simp
next
  case (Cons kv detail)
  obtain k' v' where kv: "kv = (k', v')" by (cases kv)
  show ?case
  proof (cases "(k, v) \<in> set detail")
    case True
    with Cons show ?thesis by (simp add: merge_detail_def)
  next
    case False
    with Cons.prems kv have "k' = k" "v' = v" "k \<notin> fst ` set detail" by auto
    then show ?thesis
      using merge_detail_other [of k detail "d(k \<mapsto> v)"] kv
      by (simp add: merge_detail_def)
  qed
qed

text \<open>
  C3. Merging the detail of a refresh event (an object, so each field occurs once)
  into a descriptor gives every field the detail supplies the supplied value, and
  leaves every other field as it was: set to its old value, or not set.
\<close>

theorem refresh_merges_supplied_fields_only:
  assumes "distinct (map fst detail)"
  shows "(\<forall>(k, v) \<in> set detail. merge_detail d detail k = Some v) \<and>
         (\<forall>k. k \<notin> fst ` set detail \<longrightarrow> merge_detail d detail k = d k)"
  using merge_detail_supplied [OF assms] merge_detail_other by blast

theorem refresh_merges_witness:
  "merge_detail [Id \<mapsto> Str ''document1'', Path \<mapsto> Str ''doc/documentation.xml'',
                 Odd \<mapsto> Str ''docbook'', View \<mapsto> Str ''div'']
     [(Path, Str ''test/graves6.xml''), (Odd, Str ''graves''), (Position, Null)] =
   [Id \<mapsto> Str ''document1'', Path \<mapsto> Str ''test/graves6.xml'', Odd \<mapsto> Str ''graves'',
    View \<mapsto> Str ''div'', Position \<mapsto> Null]"
proof -
  let ?d = "[Id \<mapsto> Str ''document1'', Path \<mapsto> Str ''doc/documentation.xml'',
             Odd \<mapsto> Str ''docbook'', View \<mapsto> Str ''div'']"
  let ?detail = "[(Path, Str ''test/graves6.xml''), (Odd, Str ''graves''), (Position, Null)]"
  have dist: "distinct (map fst ?detail)" by simp
  note t = refresh_merges_supplied_fields_only [OF dist, of ?d]
  show ?thesis
  proof
    fix k
    show "merge_detail ?d ?detail k =
       [Id \<mapsto> Str ''document1'', Path \<mapsto> Str ''test/graves6.xml'', Odd \<mapsto> Str ''graves'',
        View \<mapsto> Str ''div'', Position \<mapsto> Null] k"
      using t by (cases k) auto
  qed
qed

section \<open>The placeholder of the viewer\<close>

text \<open>
  C2. When the remote side has no resource for the descriptor of a viewer, the fetch
  cycle ends in a viewer that is idle again and whose content region is the text of
  its \<open>not-found\<close> attribute; the cycle yields this state and no error, and it is
  announced by the terminal event.
\<close>

theorem placeholder_for_missing_resource:
  assumes "remote d = Failed"
  shows "fetch_cycle remote d v = (v\<lparr>state := Idle, content := notFound v\<rparr>, [Pb_end_update])"
  using assms by (simp add: fetch_cycle_def fetch_settles_def refresh_received_def)

theorem placeholder_witness:
  "fetch_cycle (\<lambda>d. if d Path = Some (Str ''xxx/yyy.xml'') then Failed else Markup ''<h1>Introduction</h1>'')
     [Id \<mapsto> Str ''document1'', Path \<mapsto> Str ''xxx/yyy.xml'', Odd \<mapsto> Str ''docbook'', View \<mapsto> Str ''div'']
     \<lparr>state = Idle, notFound = ''Not found'', content = []\<rparr> =
   (\<lparr>state = Idle, notFound = ''Not found'', content = ''Not found''\<rparr>, [Pb_end_update])"
proof -
  let ?remote = "\<lambda>d. if d Path = Some (Str ''xxx/yyy.xml'') then Failed else Markup ''<h1>Introduction</h1>''"
  let ?d = "[Id \<mapsto> Str ''document1'', Path \<mapsto> Str ''xxx/yyy.xml'', Odd \<mapsto> Str ''docbook'',
             View \<mapsto> Str ''div'']"
  have missing: "?remote ?d = Failed" by simp
  show ?thesis
    using placeholder_for_missing_resource
      [of ?remote ?d "\<lparr>state = Idle, notFound = ''Not found'', content = []\<rparr>", OF missing]
    by simp
qed

end
